theory Spec2Isabelle
  imports Complex_Main
begin

section \<open>The matrix helpers of USER-SMD (namespace \<open>SMD_Math\<close>, file smd\_math.h)\<close>

text \<open>
  The header computes with Eigen's fixed-size types \<open>Matrix3d\<close> and \<open>Vector3d\<close> over
  \<open>double\<close>.  Here a \<open>double\<close> is a real number and every arithmetic operation is exact:
  rounding, infinities, NaN and the sign of zero are outside the model.  Wherever the
  source divides, the theorems below carry hypotheses under which the divisor is not zero.

  The two decompositions the header calls (\<open>JacobiSVD\<close> and
  \<open>SelfAdjointEigenSolver\<close>) are library code; each is a parameter of the function that
  calls it, and what a theorem needs of its result is a hypothesis of that theorem.
\<close>

subsection \<open>Eigen's fixed-size types\<close>

text \<open>The three valid indices \<open>0\<close>, \<open>1\<close>, \<open>2\<close> of a row, a column or a vector entry.\<close>

datatype idx = I0 | I1 | I2

type_synonym Vector3d = "idx \<Rightarrow> real"

datatype Matrix3d = Matrix3d (coeff: "idx \<Rightarrow> idx \<Rightarrow> real")

text \<open>
  The operators \<open>+\<close>, \<open>-\<close>, \<open>*\<close> of \<open>Matrix3d\<close>, the zero matrix, the identity
  (\<open>setIdentity\<close>, written \<open>1\<close>) and the product with a scalar (\<open>c *\<^sub>R A\<close>; the source's
  \<open>A /= c\<close> is \<open>A /\<^sub>R c\<close>).
\<close>

instantiation Matrix3d :: real_algebra_1
begin

definition zero_Matrix3d_def: "0 = Matrix3d (\<lambda>i j. 0)"

definition one_Matrix3d_def: "1 = Matrix3d (\<lambda>i j. if i = j then 1 else 0)"

definition plus_Matrix3d_def: "A + B = Matrix3d (\<lambda>i j. coeff A i j + coeff B i j)"

definition uminus_Matrix3d_def: "- A = Matrix3d (\<lambda>i j. - coeff A i j)"

definition minus_Matrix3d_def: "A - B = Matrix3d (\<lambda>i j. coeff A i j - coeff B i j)"

definition times_Matrix3d_def:
  "A * B = Matrix3d (\<lambda>i j. coeff A i I0 * coeff B I0 j + coeff A i I1 * coeff B I1 j
                            + coeff A i I2 * coeff B I2 j)"

definition scaleR_Matrix3d_def: "scaleR c A = Matrix3d (\<lambda>i j. c * coeff A i j)"

instance
proof
  fix A B C :: Matrix3d and a b :: real
  show "A + B + C = A + (B + C)"
    by (simp add: plus_Matrix3d_def add.assoc)
  show "A + B = B + A"
    by (simp add: plus_Matrix3d_def add.commute)
  show "0 + A = A"
    by (simp add: plus_Matrix3d_def zero_Matrix3d_def)
  show "- A + A = 0"
    by (simp add: plus_Matrix3d_def zero_Matrix3d_def uminus_Matrix3d_def)
  show "A - B = A + - B"
    by (simp add: plus_Matrix3d_def minus_Matrix3d_def uminus_Matrix3d_def)
  show "a *\<^sub>R (A + B) = a *\<^sub>R A + a *\<^sub>R B"
    by (simp add: plus_Matrix3d_def scaleR_Matrix3d_def distrib_left)
  show "(a + b) *\<^sub>R A = a *\<^sub>R A + b *\<^sub>R A"
    by (simp add: plus_Matrix3d_def scaleR_Matrix3d_def distrib_right)
  show "a *\<^sub>R b *\<^sub>R A = (a * b) *\<^sub>R A"
    by (simp add: scaleR_Matrix3d_def mult.assoc)
  show "1 *\<^sub>R A = A"
    by (simp add: scaleR_Matrix3d_def)
  show "A * B * C = A * (B * C)"
    by (simp add: times_Matrix3d_def fun_eq_iff algebra_simps)
  show "1 * A = A"
  proof (rule Matrix3d.expand, rule ext, rule ext)
    fix i j
    show "coeff (1 * A) i j = coeff A i j"
      by (cases i) (simp_all add: times_Matrix3d_def one_Matrix3d_def)
  qed
  show "A * 1 = A"
  proof (rule Matrix3d.expand, rule ext, rule ext)
    fix i j
    show "coeff (A * 1) i j = coeff A i j"
      by (cases j) (simp_all add: times_Matrix3d_def one_Matrix3d_def)
  qed
  show "(A + B) * C = A * C + B * C"
    by (simp add: times_Matrix3d_def plus_Matrix3d_def fun_eq_iff algebra_simps)
  show "A * (B + C) = A * B + A * C"
    by (simp add: times_Matrix3d_def plus_Matrix3d_def fun_eq_iff algebra_simps)
  show "(0::Matrix3d) \<noteq> 1"
    by (simp add: zero_Matrix3d_def one_Matrix3d_def fun_eq_iff)
  show "a *\<^sub>R A * B = a *\<^sub>R (A * B)"
    by (simp add: times_Matrix3d_def scaleR_Matrix3d_def fun_eq_iff algebra_simps)
  show "A * a *\<^sub>R B = a *\<^sub>R (A * B)"
    by (simp add: times_Matrix3d_def scaleR_Matrix3d_def fun_eq_iff algebra_simps)
qed

end

text \<open>\<open>S(i, j) = x\<close>: one coefficient is overwritten.\<close>

definition set_coeff :: "Matrix3d \<Rightarrow> idx \<Rightarrow> idx \<Rightarrow> real \<Rightarrow> Matrix3d" where
  "set_coeff S i j x = Matrix3d ((coeff S)(i := (coeff S i)(j := x)))"

text \<open>\<open>v.asDiagonal()\<close>, \<open>A.transpose()\<close>, \<open>A.trace()\<close>.\<close>

definition asDiagonal :: "Vector3d \<Rightarrow> Matrix3d" where
  "asDiagonal v = Matrix3d (\<lambda>i j. if i = j then v i else 0)"

definition transpose3 :: "Matrix3d \<Rightarrow> Matrix3d" where
  "transpose3 A = Matrix3d (\<lambda>i j. coeff A j i)"

definition trace3 :: "Matrix3d \<Rightarrow> real" where
  "trace3 A = coeff A I0 I0 + coeff A I1 I1 + coeff A I2 I2"

text \<open>
  \<open>A.determinant()\<close> and \<open>A.inverse()\<close>.  For a 3x3 matrix Eigen expands the
  determinant along the first row.  The inverse is the transposed matrix of the
  cofactors, whose indices are taken cyclically (\<open>(i + 1) % 3\<close>, \<open>(i + 2) % 3\<close>),
  times the reciprocal of the determinant, which it expands along the first column.
\<close>

fun next3 :: "idx \<Rightarrow> idx" where
  "next3 I0 = I1"
| "next3 I1 = I2"
| "next3 I2 = I0"

definition cofactor_3x3 :: "Matrix3d \<Rightarrow> idx \<Rightarrow> idx \<Rightarrow> real" where
  "cofactor_3x3 m i j =
     coeff m (next3 i) (next3 j) * coeff m (next3 (next3 i)) (next3 (next3 j))
     - coeff m (next3 i) (next3 (next3 j)) * coeff m (next3 (next3 i)) (next3 j)"

definition determinant :: "Matrix3d \<Rightarrow> real" where
  "determinant m =
     coeff m I0 I0 * (coeff m I1 I1 * coeff m I2 I2 - coeff m I1 I2 * coeff m I2 I1)
     - coeff m I0 I1 * (coeff m I1 I0 * coeff m I2 I2 - coeff m I1 I2 * coeff m I2 I0)
     + coeff m I0 I2 * (coeff m I1 I0 * coeff m I2 I1 - coeff m I1 I1 * coeff m I2 I0)"

definition inverse3 :: "Matrix3d \<Rightarrow> Matrix3d" where
  "inverse3 m =
     (let det = coeff m I0 I0 * cofactor_3x3 m I0 I0 + coeff m I1 I0 * cofactor_3x3 m I1 I0
                + coeff m I2 I0 * cofactor_3x3 m I2 I0;
          invdet = 1 / det
      in Matrix3d (\<lambda>i j. cofactor_3x3 m j i * invdet))"

text \<open>The product of a matrix and a column vector, and a multiple of a vector.\<close>

definition mat_vec :: "Matrix3d \<Rightarrow> Vector3d \<Rightarrow> Vector3d" where
  "mat_vec A v = (\<lambda>i. coeff A i I0 * v I0 + coeff A i I1 * v I1 + coeff A i I2 * v I2)"

definition vec_scale :: "real \<Rightarrow> Vector3d \<Rightarrow> Vector3d" where
  "vec_scale c v = (\<lambda>i. c * v i)"

text \<open>
  \<open>v.minCoeff()\<close> and \<open>v.maxCoeff()\<close>: the smallest and the largest coefficient.
\<close>

definition minCoeff :: "Vector3d \<Rightarrow> real" where
  "minCoeff v = min (min (v I0) (v I1)) (v I2)"

definition maxCoeff :: "Vector3d \<Rightarrow> real" where
  "maxCoeff v = max (max (v I0) (v I1)) (v I2)"

text \<open>
  Modelled from the spec: \<open>v.minCoeff(&imin)\<close> is Eigen library code that is not part of
  the header; the spec fixes the index it stores as the first index achieving the
  minimum.  The coefficients are visited in the order \<open>0\<close>, \<open>1\<close>, \<open>2\<close> and the index
  moves only to a strictly smaller coefficient.
\<close>

definition minCoeff_index :: "Vector3d \<Rightarrow> idx" where
  "minCoeff_index v =
     (let (res, imin) = (v I0, I0);
          (res, imin) = (if v I1 < res then (v I1, I1) else (res, imin));
          (res, imin) = (if v I2 < res then (v I2, I2) else (res, imin))
      in imin)"

text \<open>
  What the theorems say of matrices: orthogonal (\<open>A\<^sup>T A = I\<close>), symmetric, and real
  eigenvalues with their eigenvectors (\<open>A v = ev v\<close> for a vector \<open>v\<close> that is not zero).
\<close>

definition orthogonal :: "Matrix3d \<Rightarrow> bool" where
  "orthogonal A \<longleftrightarrow> transpose3 A * A = 1"

definition symmetric :: "Matrix3d \<Rightarrow> bool" where
  "symmetric A \<longleftrightarrow> transpose3 A = A"

definition eigenpair :: "Matrix3d \<Rightarrow> real \<Rightarrow> Vector3d \<Rightarrow> bool" where
  "eigenpair A ev v \<longleftrightarrow>
     \<not> (v I0 = 0 \<and> v I1 = 0 \<and> v I2 = 0) \<and> mat_vec A v = vec_scale ev v"

definition eigenvalue :: "Matrix3d \<Rightarrow> real \<Rightarrow> bool" where
  "eigenvalue A ev \<longleftrightarrow> (\<exists>v. eigenpair A ev v)"

text \<open>Concrete vectors and diagonal matrices, for the examples.\<close>

definition vec3 :: "real \<Rightarrow> real \<Rightarrow> real \<Rightarrow> Vector3d" where
  "vec3 a b c = (\<lambda>i. case i of I0 \<Rightarrow> a | I1 \<Rightarrow> b | I2 \<Rightarrow> c)"

definition diag3 :: "real \<Rightarrow> real \<Rightarrow> real \<Rightarrow> Matrix3d" where
  "diag3 a b c = asDiagonal (vec3 a b c)"

subsection \<open>LimitDoubleMagnitude\<close>

text \<open>
  \<open>copysign(a, x)\<close>: the magnitude of \<open>a\<close> with the sign of \<open>x\<close>.  A real number has no
  negative zero, so the sign of \<open>0\<close> is positive.
\<close>

definition copysign :: "real \<Rightarrow> real \<Rightarrow> real" where
  "copysign a x = (if x < 0 then - \<bar>a\<bar> else \<bar>a\<bar>)"

text \<open>The function updates \<open>x\<close> through a reference; the model returns the new \<open>x\<close>.\<close>

definition LimitDoubleMagnitude :: "real \<Rightarrow> real \<Rightarrow> real" where
  "LimitDoubleMagnitude x limit = (if \<bar>x\<bar> > limit then limit * copysign 1 x else x)"

subsection \<open>Deviator\<close>

definition Deviator :: "Matrix3d \<Rightarrow> Matrix3d" where
  "Deviator M = (let eye = 1; eye = (trace3 M / 3) *\<^sub>R eye in M - eye)"

subsection \<open>The decompositions taken from the library\<close>

text \<open>
  What the header reads of a \<open>JacobiSVD\<close> object after \<open>compute\<close>:
  \<open>matrixU()\<close>, \<open>singularValues()\<close>, \<open>matrixV()\<close>; and of a
  \<open>SelfAdjointEigenSolver\<close> object: \<open>eigenvalues()\<close>, \<open>eigenvectors()\<close>
  (the eigenvectors are the columns).  The solver itself is a function from the matrix
  it is given to such a result.
\<close>

record JacobiSVD =
  matrixU :: Matrix3d
  singularValues :: Vector3d
  matrixV :: Matrix3d

record SelfAdjointEigenSolver =
  eigenvalues :: Vector3d
  eigenvectors :: Matrix3d

text \<open>
  The solver's result on \<open>S\<close> is an eigen-decomposition of \<open>S\<close>: the eigenvectors are
  orthonormal and \<open>S V = V \<Lambda>\<close>.
\<close>

definition eigen_decomposition :: "Matrix3d \<Rightarrow> SelfAdjointEigenSolver \<Rightarrow> bool" where
  "eigen_decomposition S es \<longleftrightarrow>
     orthogonal (eigenvectors es) \<and>
     S * eigenvectors es = eigenvectors es * asDiagonal (eigenvalues es)"

text \<open>
  Two solvers for the examples.  On a diagonal matrix they return a decomposition of it
  (signs, magnitudes and the identity; the diagonal and the identity); on every matrix
  their factors are orthogonal.
\<close>

definition svd_diagonal :: "Matrix3d \<Rightarrow> JacobiSVD" where
  "svd_diagonal X =
     \<lparr>matrixU = asDiagonal (\<lambda>i. if coeff X i i < 0 then - 1 else 1),
      singularValues = (\<lambda>i. \<bar>coeff X i i\<bar>),
      matrixV = 1\<rparr>"

definition eig_diagonal :: "Matrix3d \<Rightarrow> SelfAdjointEigenSolver" where
  "eig_diagonal X = \<lparr>eigenvalues = (\<lambda>i. coeff X i i), eigenvectors = 1\<rparr>"

subsection \<open>PolDec\<close>

text \<open>
  The body of both clamping loops of the header (in \<open>PolDec\<close> and in
  \<open>LimitMinMaxEigenvalues\<close>): the diagonal entry \<open>i\<close> is raised to \<open>minv\<close> or lowered
  to \<open>maxv\<close>.
\<close>

definition clamp_diagonal_entry :: "real \<Rightarrow> real \<Rightarrow> idx \<Rightarrow> Matrix3d \<Rightarrow> Matrix3d" where
  "clamp_diagonal_entry minv maxv i S =
     (if coeff S i i < minv then set_coeff S i i minv
      else if coeff S i i > maxv then set_coeff S i i maxv
      else S)"

text \<open>The value the loop body leaves in an entry that held \<open>x\<close>.\<close>

definition clamp_value :: "real \<Rightarrow> real \<Rightarrow> real \<Rightarrow> real" where
  "clamp_value minv maxv x = (if x < minv then minv else if x > maxv then maxv else x)"

text \<open>
  \<open>PolDec\<close> takes three references.  The record holds what they refer to; its extension
  stands for everything else the caller owns.  The function returns its boolean and
  the record after the call.
\<close>

record PolDec_refs =
  M_ref :: Matrix3d
  R_ref :: Matrix3d
  T_ref :: Matrix3d

definition PolDec ::
  "(Matrix3d \<Rightarrow> JacobiSVD) \<Rightarrow> 'a PolDec_refs_scheme \<Rightarrow> bool \<times> 'a PolDec_refs_scheme" where
  "PolDec compute st =
     (let svd = compute (M_ref st);
          S_eigenvalues = singularValues svd;
          S = asDiagonal (singularValues svd);
          U = matrixU svd;
          V = matrixV svd;
          R = U * transpose3 V;
          (S, U, V, R) =
            (if determinant R < 0 then
               let imin = minCoeff_index S_eigenvalues;
                   S = set_coeff S imin imin (coeff S imin imin * (- 1));
                   F = U * S * transpose3 V;
                   svd = compute F;
                   U = matrixU svd;
                   V = matrixV svd;
                   R = U * transpose3 V
               in (S, U, V, R)
             else (S, U, V, R));
          minv = 3 / 10;
          maxv = 2;
          S = fold (clamp_diagonal_entry minv maxv) [I0, I1, I2] S;
          T = V * S * transpose3 V;
          M = R * T
      in (\<bar>determinant R - 1\<bar> < 1 / 10 ^ 8, st\<lparr>M_ref := M, R_ref := R, T_ref := T\<rparr>))"

text \<open>
  The correction branch in the words of the spec: the singular value of smallest
  magnitude, the first one on a tie, is negated; \<open>F\<close> is rebuilt and decomposed again;
  \<open>R\<close> comes from the new factors and \<open>T\<close> from the new \<open>V\<close> and the entries of the
  flipped \<open>S\<close> clamped into \<open>[0.3, 2.0]\<close>.
\<close>

definition smallest_magnitude_first :: "Vector3d \<Rightarrow> idx" where
  "smallest_magnitude_first v =
     (if \<bar>v I0\<bar> \<le> \<bar>v I1\<bar> \<and> \<bar>v I0\<bar> \<le> \<bar>v I2\<bar> then I0
      else if \<bar>v I1\<bar> \<le> \<bar>v I0\<bar> \<and> \<bar>v I1\<bar> \<le> \<bar>v I2\<bar> then I1
      else I2)"

definition PolDec_correction_spec ::
  "(Matrix3d \<Rightarrow> JacobiSVD) \<Rightarrow> Matrix3d \<Rightarrow> Matrix3d \<times> Matrix3d" where
  "PolDec_correction_spec compute M =
     (let first_svd = compute M;
          s = singularValues first_svd;
          k = smallest_magnitude_first s;
          s_flipped = s(k := - s k);
          F = matrixU first_svd * asDiagonal s_flipped * transpose3 (matrixV first_svd);
          second_svd = compute F;
          R = matrixU second_svd * transpose3 (matrixV second_svd);
          s_clamped = (\<lambda>i. max (3 / 10) (min 2 (s_flipped i)));
          T = matrixV second_svd * asDiagonal s_clamped * transpose3 (matrixV second_svd)
      in (R, T))"

subsection \<open>pseudo\_inverse\_SVD\<close>

text \<open>
  \<open>singularValuesInv\<close> is declared without a value and the loop then writes each of
  its three entries.
\<close>

definition pseudo_inverse_SVD :: "(Matrix3d \<Rightarrow> JacobiSVD) \<Rightarrow> Matrix3d \<Rightarrow> Matrix3d" where
  "pseudo_inverse_SVD compute M =
     (let svd = compute M;
          singularValuesInv = undefined;
          svalues = singularValues svd;
          U = matrixU svd;
          V = matrixV svd;
          pinvtoler = 1 / 10 ^ 6;
          singularValuesInv =
            fold (\<lambda>row inv. if svalues row > pinvtoler then inv(row := 1 / svalues row)
                             else inv(row := 1))
              [I0, I1, I2] singularValuesInv;
          pInv = V * asDiagonal singularValuesInv * transpose3 U
      in pInv)"

subsection \<open>LimitEigenvalues and LimitMinMaxEigenvalues\<close>

definition LimitEigenvalues ::
  "(Matrix3d \<Rightarrow> SelfAdjointEigenSolver) \<Rightarrow> Matrix3d \<Rightarrow> real \<Rightarrow> Matrix3d" where
  "LimitEigenvalues compute S limitEigenvalue =
     (let es = compute S;
          max_eigenvalue = maxCoeff (eigenvalues es);
          min_eigenvalue = minCoeff (eigenvalues es);
          amax_eigenvalue = \<bar>max_eigenvalue\<bar>;
          amin_eigenvalue = \<bar>min_eigenvalue\<bar>
      in if amax_eigenvalue > limitEigenvalue \<or> amin_eigenvalue > limitEigenvalue then
           if amax_eigenvalue > amin_eigenvalue then
             let scale = amax_eigenvalue / limitEigenvalue;
                 V = eigenvectors es;
                 S_diag = inverse3 V * S * V;
                 S_diag = S_diag /\<^sub>R scale;
                 S_scaled = V * S_diag * inverse3 V
             in S_scaled
           else
             let scale = amin_eigenvalue / limitEigenvalue;
                 V = eigenvectors es;
                 S_diag = inverse3 V * S * V;
                 S_diag = S_diag /\<^sub>R scale;
                 S_scaled = V * S_diag * inverse3 V
             in S_scaled
         else S)"

text \<open>
  The quantity the spec writes \<open>max(|\<lambda>_max|, |\<lambda>_min|)\<close>, of the eigenvalues the solver
  returned.
\<close>

definition largest_magnitude :: "Vector3d \<Rightarrow> real" where
  "largest_magnitude v = max \<bar>maxCoeff v\<bar> \<bar>minCoeff v\<bar>"

text \<open>\<open>S\<close> is a reference: the function returns its boolean and the new \<open>S\<close>.\<close>

definition LimitMinMaxEigenvalues ::
  "(Matrix3d \<Rightarrow> SelfAdjointEigenSolver) \<Rightarrow> Matrix3d \<Rightarrow> real \<Rightarrow> real \<Rightarrow> bool \<times> Matrix3d" where
  "LimitMinMaxEigenvalues compute S minv maxv =
     (let es = compute S
      in if maxCoeff (eigenvalues es) > maxv \<or> minCoeff (eigenvalues es) < minv then
           let S_diag = asDiagonal (eigenvalues es);
               V = eigenvectors es;
               S_diag = fold (clamp_diagonal_entry minv maxv) [I0, I1, I2] S_diag;
               S = V * S_diag * inverse3 V
           in (True, S)
         else (False, S))"

section \<open>Matrix algebra\<close>

lemma idx_all: "(\<forall>i::idx. P i) \<longleftrightarrow> P I0 \<and> P I1 \<and> P I2"
  by (metis idx.exhaust)

lemma idx_ex: "(\<exists>i::idx. P i) \<longleftrightarrow> P I0 \<or> P I1 \<or> P I2"
  by (metis idx.exhaust)

lemma mat_eq_iff: "A = B \<longleftrightarrow> (\<forall>i j. coeff A i j = coeff B i j)"
  by (auto simp: Matrix3d.expand fun_eq_iff)

lemma coeff_one: "coeff 1 i j = (if i = j then 1 else 0)"
  by (simp add: one_Matrix3d_def)

lemma coeff_zero: "coeff 0 i j = 0"
  by (simp add: zero_Matrix3d_def)

lemma coeff_plus: "coeff (A + B) i j = coeff A i j + coeff B i j"
  by (simp add: plus_Matrix3d_def)

lemma coeff_minus: "coeff (A - B) i j = coeff A i j - coeff B i j"
  by (simp add: minus_Matrix3d_def)

lemma coeff_times:
  "coeff (A * B) i j = coeff A i I0 * coeff B I0 j + coeff A i I1 * coeff B I1 j
                       + coeff A i I2 * coeff B I2 j"
  by (simp add: times_Matrix3d_def)

lemma coeff_scaleR: "coeff (c *\<^sub>R A) i j = c * coeff A i j"
  by (simp add: scaleR_Matrix3d_def)

lemma coeff_asDiagonal: "coeff (asDiagonal v) i j = (if i = j then v i else 0)"
  by (simp add: asDiagonal_def)

lemma coeff_transpose3: "coeff (transpose3 A) i j = coeff A j i"
  by (simp add: transpose3_def)

lemmas coeff_simps = coeff_one coeff_zero coeff_plus coeff_minus coeff_times coeff_scaleR
  coeff_asDiagonal coeff_transpose3

lemma transpose3_times: "transpose3 (A * B) = transpose3 B * transpose3 A"
  by (simp add: mat_eq_iff coeff_simps mult.commute)

lemma transpose3_transpose3: "transpose3 (transpose3 A) = A"
  by (simp add: mat_eq_iff coeff_simps)

lemma transpose3_one: "transpose3 1 = 1"
  by (auto simp add: mat_eq_iff coeff_simps)

lemma transpose3_asDiagonal: "transpose3 (asDiagonal v) = asDiagonal v"
  by (auto simp add: mat_eq_iff coeff_simps)

lemma determinant_times: "determinant (A * B) = determinant A * determinant B"
  by (simp add: determinant_def coeff_times algebra_simps)

lemma determinant_transpose3: "determinant (transpose3 A) = determinant A"
  by (simp add: determinant_def coeff_transpose3 algebra_simps)

lemma determinant_one: "determinant 1 = 1"
  by (simp add: determinant_def coeff_one)

lemma determinant_asDiagonal: "determinant (asDiagonal v) = v I0 * v I1 * v I2"
  by (simp add: determinant_def coeff_asDiagonal)

lemma times_adjugate:
  "A * Matrix3d (\<lambda>i j. cofactor_3x3 A j i) = determinant A *\<^sub>R 1"
  by (simp add: mat_eq_iff idx_all coeff_simps cofactor_3x3_def determinant_def algebra_simps)

lemma adjugate_times:
  "Matrix3d (\<lambda>i j. cofactor_3x3 A j i) * A = determinant A *\<^sub>R 1"
  by (simp add: mat_eq_iff idx_all coeff_simps cofactor_3x3_def determinant_def algebra_simps)

lemma det_col0:
  "coeff m I0 I0 * cofactor_3x3 m I0 I0 + coeff m I1 I0 * cofactor_3x3 m I1 I0
   + coeff m I2 I0 * cofactor_3x3 m I2 I0 = determinant m"
  by (simp add: cofactor_3x3_def determinant_def algebra_simps)

lemma inverse3_eq: "inverse3 A = (1 / determinant A) *\<^sub>R Matrix3d (\<lambda>i j. cofactor_3x3 A j i)"
  unfolding inverse3_def Let_def det_col0 by (simp add: mat_eq_iff coeff_scaleR)

lemma times_inverse3: "determinant A \<noteq> 0 \<Longrightarrow> A * inverse3 A = 1"
  by (simp add: inverse3_eq times_adjugate)

lemma inverse3_times: "determinant A \<noteq> 0 \<Longrightarrow> inverse3 A * A = 1"
  by (simp add: inverse3_eq adjugate_times)

lemma orthogonal_determinant: "orthogonal A \<Longrightarrow> determinant A \<noteq> 0"
proof
  assume "orthogonal A" and z: "determinant A = 0"
  then have "determinant (transpose3 A * A) = determinant 1"
    by (simp add: orthogonal_def)
  then show False
    by (simp add: determinant_times determinant_one z)
qed

lemma orthogonal_inverse3: "orthogonal A \<Longrightarrow> inverse3 A = transpose3 A"
proof -
  assume a: "orthogonal A"
  then have "A * inverse3 A = 1"
    by (simp add: times_inverse3 orthogonal_determinant)
  then have "transpose3 A * A * inverse3 A = transpose3 A"
    by (simp add: mult.assoc)
  then show ?thesis
    using a by (simp add: orthogonal_def)
qed

text \<open>A left inverse of a square matrix is a right inverse.\<close>

lemma orthogonal_right: "orthogonal A \<Longrightarrow> A * transpose3 A = 1"
  using times_inverse3 [of A] by (simp add: orthogonal_inverse3 orthogonal_determinant)

lemma orthogonal_transpose3: "orthogonal A \<Longrightarrow> orthogonal (transpose3 A)"
  by (simp add: orthogonal_def transpose3_transpose3 orthogonal_right)

lemma orthogonal_times: "orthogonal A \<Longrightarrow> orthogonal B \<Longrightarrow> orthogonal (A * B)"
proof -
  assume a: "orthogonal A" and b: "orthogonal B"
  have "transpose3 B * (transpose3 A * A) * B = 1"
    using a b by (simp add: orthogonal_def)
  then show ?thesis
    by (simp add: orthogonal_def transpose3_times mult.assoc)
qed

lemma orthogonal_one: "orthogonal 1"
  by (simp add: orthogonal_def transpose3_one)

lemma inverse3_one: "inverse3 1 = 1"
  using orthogonal_inverse3 [OF orthogonal_one] by (simp add: transpose3_one)

text \<open>Diagonal matrices.\<close>

lemma coeff_asDiagonal_diag: "coeff (asDiagonal v) i i = v i"
  by (simp add: coeff_asDiagonal)

lemma set_coeff_asDiagonal: "set_coeff (asDiagonal d) i i x = asDiagonal (d(i := x))"
  by (auto simp: set_coeff_def mat_eq_iff coeff_asDiagonal)

lemma asDiagonal_times: "asDiagonal a * asDiagonal b = asDiagonal (\<lambda>i. a i * b i)"
  by (simp add: mat_eq_iff coeff_simps idx_all)

lemma asDiagonal_eq_iff: "asDiagonal a = asDiagonal b \<longleftrightarrow> a = b"
  by (auto simp: mat_eq_iff coeff_asDiagonal fun_eq_iff)

lemma asDiagonal_one: "asDiagonal (\<lambda>i. 1) = 1"
  by (simp add: mat_eq_iff coeff_simps)

lemma scaleR_asDiagonal: "c *\<^sub>R asDiagonal v = asDiagonal (\<lambda>i. c * v i)"
  by (simp add: mat_eq_iff coeff_simps)

lemma orthogonal_signs: "orthogonal (asDiagonal (\<lambda>i. if P i then - 1 else 1))"
proof -
  have "asDiagonal (\<lambda>i. if P i then - 1 else 1) * asDiagonal (\<lambda>i. if P i then - 1 else 1) = 1"
    unfolding asDiagonal_times asDiagonal_one [symmetric] asDiagonal_eq_iff
    by (simp add: fun_eq_iff)
  then show ?thesis
    by (simp add: orthogonal_def transpose3_asDiagonal)
qed

lemma symmetric_similar_diagonal: "symmetric (V * asDiagonal d * transpose3 V)"
  by (simp add: symmetric_def transpose3_times transpose3_transpose3 transpose3_asDiagonal
      mult.assoc)

lemma similarity_rescale:
  fixes V W S :: Matrix3d
  assumes "V * W = 1"
  shows "V * ((W * S * V) /\<^sub>R c) * W = S /\<^sub>R c"
proof -
  have "V * (W * S * V) * W = (V * W) * S * (V * W)"
    by (simp add: mult.assoc)
  then have "V * (W * S * V) * W = S"
    by (simp add: assms)
  then show ?thesis
    by simp
qed

lemma vec3_simps: "vec3 a b c I0 = a" "vec3 a b c I1 = b" "vec3 a b c I2 = c"
  by (simp_all add: vec3_def)

lemma vec3_eq_iff: "f = vec3 a b c \<longleftrightarrow> f I0 = a \<and> f I1 = b \<and> f I2 = c"
  by (auto simp: fun_eq_iff idx_all vec3_def)

text \<open>Matrices and vectors; eigenvalues.\<close>

lemma mat_vec_times: "mat_vec (A * B) v = mat_vec A (mat_vec B v)"
  by (simp add: mat_vec_def fun_eq_iff coeff_times algebra_simps)

lemma mat_vec_one: "mat_vec 1 v = v"
  by (simp add: mat_vec_def fun_eq_iff coeff_one idx_all)

lemma mat_vec_scale: "mat_vec A (vec_scale c v) = vec_scale c (mat_vec A v)"
  by (simp add: mat_vec_def vec_scale_def fun_eq_iff algebra_simps)

lemma mat_vec_asDiagonal: "mat_vec (asDiagonal d) v = (\<lambda>i. d i * v i)"
  by (simp add: mat_vec_def fun_eq_iff coeff_asDiagonal idx_all)

lemma mat_vec_scaleR: "mat_vec (c *\<^sub>R A) v = vec_scale c (mat_vec A v)"
  by (simp add: mat_vec_def vec_scale_def fun_eq_iff coeff_scaleR algebra_simps)

lemma mat_vec_zero: "mat_vec A (\<lambda>i. 0) = (\<lambda>i. 0)"
  by (simp add: mat_vec_def)

lemma nonzero_iff: "\<not> (v I0 = 0 \<and> v I1 = 0 \<and> v I2 = (0::real)) \<longleftrightarrow> v \<noteq> (\<lambda>i. 0)"
  by (auto simp: fun_eq_iff idx_all)

text \<open>
  The eigenvalues of \<open>V D W\<close>, for a diagonal \<open>D\<close> and a two-sided inverse \<open>W\<close> of \<open>V\<close>,
  are the diagonal entries of \<open>D\<close>.
\<close>

lemma eigenvalue_similar_diagonal:
  assumes vw: "V * W = 1" and wv: "W * V = 1"
    and e: "eigenvalue (V * asDiagonal d * W) ev"
  shows "\<exists>i. ev = d i"
proof -
  from e obtain v where nz: "v \<noteq> (\<lambda>i. 0)"
    and ev: "mat_vec (V * asDiagonal d * W) v = vec_scale ev v"
    unfolding eigenvalue_def eigenpair_def nonzero_iff by blast
  define w where "w = mat_vec W v"
  have "mat_vec V w = v"
    by (simp add: w_def vw mat_vec_one flip: mat_vec_times)
  with nz have "w \<noteq> (\<lambda>i. 0)"
    using mat_vec_zero [of V] by auto
  then obtain i where i: "w i \<noteq> 0"
    by (auto simp: fun_eq_iff)
  have "mat_vec (W * (V * asDiagonal d * W)) v = mat_vec W (mat_vec (V * asDiagonal d * W) v)"
    by (rule mat_vec_times)
  also have "\<dots> = vec_scale ev w"
    by (simp only: ev mat_vec_scale w_def)
  finally have "mat_vec (W * (V * asDiagonal d * W)) v = vec_scale ev w" .
  moreover have "W * (V * asDiagonal d * W) = asDiagonal d * W"
    by (simp add: wv flip: mult.assoc)
  ultimately have "mat_vec (asDiagonal d) w = vec_scale ev w"
    by (simp add: w_def mat_vec_times)
  then have "d i * w i = ev * w i"
    by (simp add: mat_vec_asDiagonal vec_scale_def fun_eq_iff)
  with i show ?thesis by auto
qed

lemma diagonal_entry_eigenvalue:
  assumes vw: "V * W = 1" and wv: "W * V = 1"
  shows "eigenvalue (V * asDiagonal d * W) (d i)"
proof -
  define e :: Vector3d where "e = (\<lambda>j. if j = i then 1 else 0)"
  define v where "v = mat_vec V e"
  have we: "mat_vec W v = e"
    by (simp add: v_def wv mat_vec_one flip: mat_vec_times)
  moreover have "e \<noteq> (\<lambda>i. 0)"
    by (auto simp: e_def fun_eq_iff)
  ultimately have nz: "v \<noteq> (\<lambda>i. 0)"
    using mat_vec_zero [of W] by auto
  have de: "mat_vec (asDiagonal d) e = vec_scale (d i) e"
    by (auto simp: mat_vec_asDiagonal vec_scale_def e_def fun_eq_iff)
  have "mat_vec (V * asDiagonal d * W) v = mat_vec V (mat_vec (asDiagonal d) (mat_vec W v))"
    by (simp only: mat_vec_times)
  also have "\<dots> = mat_vec V (vec_scale (d i) e)"
    by (simp only: we de)
  also have "\<dots> = vec_scale (d i) v"
    by (simp only: mat_vec_scale v_def)
  finally have "mat_vec (V * asDiagonal d * W) v = vec_scale (d i) v" .
  with nz show ?thesis
    unfolding eigenvalue_def eigenpair_def nonzero_iff by blast
qed

lemma eigenvalue_scaleR:
  assumes "c \<noteq> 0"
  shows "eigenvalue (c *\<^sub>R A) (c * ev) \<longleftrightarrow> eigenvalue A ev"
proof -
  have "mat_vec (c *\<^sub>R A) v = vec_scale (c * ev) v \<longleftrightarrow> mat_vec A v = vec_scale ev v" for v
    using assms by (simp add: mat_vec_scaleR vec_scale_def fun_eq_iff mult.assoc)
  then show ?thesis
    by (simp add: eigenvalue_def eigenpair_def)
qed

lemma eigenvalue_diag3_first: "eigenvalue (diag3 a b c) a"
proof -
  have "eigenpair (diag3 a b c) a (vec3 1 0 0)"
    by (simp add: eigenpair_def diag3_def mat_vec_asDiagonal vec_scale_def vec3_simps
        fun_eq_iff idx_all)
  then show ?thesis
    by (auto simp: eigenvalue_def)
qed

text \<open>The smallest and the largest coefficient of a vector.\<close>

lemma maxCoeff_gt_iff: "maxCoeff v > x \<longleftrightarrow> (\<exists>i. v i > x)"
  by (auto simp: maxCoeff_def idx_ex)

lemma minCoeff_less_iff: "minCoeff v < x \<longleftrightarrow> (\<exists>i. v i < x)"
  by (auto simp: minCoeff_def idx_ex)

lemma maxCoeff_entry: "\<exists>i. maxCoeff v = v i"
  by (auto simp: maxCoeff_def max_def)

lemma minCoeff_entry: "\<exists>i. minCoeff v = v i"
  by (auto simp: minCoeff_def min_def)

lemma largest_magnitude_bound: "\<bar>v i\<bar> \<le> largest_magnitude v"
proof -
  have "minCoeff v \<le> v i" and "v i \<le> maxCoeff v"
    by (cases i; simp add: minCoeff_def maxCoeff_def)+
  then show ?thesis
    unfolding largest_magnitude_def by linarith
qed

lemma largest_magnitude_entry: "\<exists>i. \<bar>v i\<bar> = largest_magnitude v"
  using maxCoeff_entry [of v] minCoeff_entry [of v]
  by (auto simp: largest_magnitude_def max_def)

text \<open>
  For non-negative coefficients the index that \<open>minCoeff\<close> stores is the first index of
  a coefficient of smallest magnitude.
\<close>

lemma minCoeff_index_nonneg:
  assumes "\<forall>i. 0 \<le> s i"
  shows "minCoeff_index s = smallest_magnitude_first s"
proof -
  have "\<bar>s I0\<bar> = s I0" "\<bar>s I1\<bar> = s I1" "\<bar>s I2\<bar> = s I2"
    using assms by simp_all
  then show ?thesis
    by (auto simp: minCoeff_index_def smallest_magnitude_first_def)
qed

section \<open>The decompositions\<close>

text \<open>
  An eigen-decomposition \<open>S V = V \<Lambda>\<close> with orthonormal \<open>V\<close>: Eigen's inverse of \<open>V\<close> is
  its inverse, \<open>S = V \<Lambda> V\<^sup>-\<^sup>1\<close>, and the eigenvalues of \<open>S\<close> are the entries of \<open>\<Lambda>\<close>.
\<close>

lemma eigen_decomposition_inverse:
  assumes "eigen_decomposition S es"
  shows "eigenvectors es * inverse3 (eigenvectors es) = 1"
    and "inverse3 (eigenvectors es) * eigenvectors es = 1"
    and "S = eigenvectors es * asDiagonal (eigenvalues es) * inverse3 (eigenvectors es)"
proof -
  have o: "orthogonal (eigenvectors es)"
    and sv: "S * eigenvectors es = eigenvectors es * asDiagonal (eigenvalues es)"
    using assms by (simp_all add: eigen_decomposition_def)
  from o have d: "determinant (eigenvectors es) \<noteq> 0"
    by (rule orthogonal_determinant)
  show vw: "eigenvectors es * inverse3 (eigenvectors es) = 1"
    using d by (rule times_inverse3)
  show "inverse3 (eigenvectors es) * eigenvectors es = 1"
    using d by (rule inverse3_times)
  have "S * (eigenvectors es * inverse3 (eigenvectors es))
      = eigenvectors es * asDiagonal (eigenvalues es) * inverse3 (eigenvectors es)"
    by (simp only: sv flip: mult.assoc)
  then show "S = eigenvectors es * asDiagonal (eigenvalues es) * inverse3 (eigenvectors es)"
    by (simp add: vw)
qed

lemma eigenvalue_decomposition_iff:
  assumes "eigen_decomposition S es"
  shows "eigenvalue S ev \<longleftrightarrow> (\<exists>i. ev = eigenvalues es i)"
proof
  assume "eigenvalue S ev"
  then have "eigenvalue (eigenvectors es * asDiagonal (eigenvalues es) * inverse3 (eigenvectors es)) ev"
    using eigen_decomposition_inverse(3) [OF assms] by simp
  then show "\<exists>i. ev = eigenvalues es i"
    by (rule eigenvalue_similar_diagonal [OF eigen_decomposition_inverse(1,2) [OF assms]])
next
  assume "\<exists>i. ev = eigenvalues es i"
  then obtain i where "ev = eigenvalues es i" ..
  then have "eigenvalue (eigenvectors es * asDiagonal (eigenvalues es) * inverse3 (eigenvectors es)) ev"
    using diagonal_entry_eigenvalue [OF eigen_decomposition_inverse(1,2) [OF assms]] by simp
  then show "eigenvalue S ev"
    using eigen_decomposition_inverse(3) [OF assms] by simp
qed

text \<open>The two solvers of the examples.\<close>

lemma svd_diagonal_orthogonal:
  "orthogonal (matrixU (svd_diagonal X)) \<and> orthogonal (matrixV (svd_diagonal X))"
  by (simp add: svd_diagonal_def orthogonal_one orthogonal_signs)

lemma svd_diagonal_asDiagonal:
  "svd_diagonal (asDiagonal d) =
     \<lparr>matrixU = asDiagonal (\<lambda>i. if d i < 0 then - 1 else 1),
      singularValues = (\<lambda>i. \<bar>d i\<bar>), matrixV = 1\<rparr>"
  by (simp add: svd_diagonal_def coeff_asDiagonal)

lemma eig_diagonal_decomposition: "eigen_decomposition (asDiagonal d) (eig_diagonal (asDiagonal d))"
  by (simp add: eigen_decomposition_def eig_diagonal_def orthogonal_one coeff_asDiagonal)

lemma eigenvalue_asDiagonal: "eigenvalue (asDiagonal d) ev \<longleftrightarrow> (\<exists>i. ev = d i)"
  using eigenvalue_decomposition_iff [OF eig_diagonal_decomposition, of d ev]
  by (simp add: eig_diagonal_def coeff_asDiagonal)

section \<open>The functions of the header\<close>

subsection \<open>LimitDoubleMagnitude\<close>

text \<open>
  Claim C8, as amended.  For a limit \<open>L \<ge> 0\<close> the stored value has magnitude at most
  \<open>L\<close>; it is the old value when \<open>\<bar>x\<bar> \<le> L\<close> held; otherwise it is \<open>L\<close> times the sign
  of \<open>x\<close>, so that it has the sign of \<open>x\<close> whenever \<open>L > 0\<close>.
\<close>

theorem LimitDoubleMagnitude_bounded:
  assumes "0 \<le> L"
  shows "\<bar>LimitDoubleMagnitude x L\<bar> \<le> L
    \<and> (\<bar>x\<bar> \<le> L \<longrightarrow> LimitDoubleMagnitude x L = x)
    \<and> (L < \<bar>x\<bar> \<longrightarrow> LimitDoubleMagnitude x L = L * sgn x)
    \<and> (0 < L \<longrightarrow> sgn (LimitDoubleMagnitude x L) = sgn x)"
  using assms by (auto simp: LimitDoubleMagnitude_def copysign_def sgn_if mult_less_0_iff)

theorem LimitDoubleMagnitude_bounded_witness:
  "(0::real) \<le> 2 \<and> \<bar>LimitDoubleMagnitude (- 5) 2\<bar> \<le> 2
   \<and> LimitDoubleMagnitude (- 5) 2 = 2 * sgn (- 5)
   \<and> sgn (LimitDoubleMagnitude (- 5) 2) = sgn (- 5 :: real)
   \<and> \<bar>1 :: real\<bar> \<le> 2 \<and> LimitDoubleMagnitude 1 2 = 1"
  using LimitDoubleMagnitude_bounded [of 2 "- 5"] LimitDoubleMagnitude_bounded [of 2 1]
  by simp

text \<open>
  Claim C8 as stated also promises the sign of \<open>x\<close> for the limit \<open>0\<close>.  There the
  stored value is \<open>0 * copysign(1, x)\<close>, a zero, which is not positive as \<open>x = 5\<close> is.
\<close>

theorem LimitDoubleMagnitude_zero_limit_counterexample:
  "LimitDoubleMagnitude 5 0 = 0 \<and> sgn (LimitDoubleMagnitude 5 0) \<noteq> sgn (5::real)"
  by (simp add: LimitDoubleMagnitude_def copysign_def)

subsection \<open>Deviator\<close>

text \<open>
  Claim C9.  \<open>Deviator M\<close> is \<open>M - (trace M / 3) I\<close>; its trace is \<open>0\<close>, and adding
  \<open>(trace M / 3) I\<close> back gives \<open>M\<close>.  The function is a closed expression of every
  matrix: there is no failure.
\<close>

theorem Deviator_trace_free:
  "Deviator M = M - (trace3 M / 3) *\<^sub>R 1 \<and> trace3 (Deviator M) = 0
   \<and> Deviator M + (trace3 M / 3) *\<^sub>R 1 = M"
proof -
  have d: "Deviator M = M - (trace3 M / 3) *\<^sub>R 1"
    by (simp add: Deviator_def Let_def)
  have "trace3 (M - (trace3 M / 3) *\<^sub>R 1) = 0"
    by (simp add: trace3_def coeff_simps field_simps)
  with d show ?thesis by simp
qed

subsection \<open>PolDec\<close>

text \<open>The clamping loop on a diagonal matrix clamps each diagonal entry.\<close>

lemma clamp_value_range:
  "lo \<le> hi \<Longrightarrow> lo \<le> clamp_value lo hi x \<and> clamp_value lo hi x \<le> hi"
  by (simp add: clamp_value_def)

lemma clamp_value_max_min: "lo \<le> hi \<Longrightarrow> clamp_value lo hi x = max lo (min hi x)"
  by (simp add: clamp_value_def max_def min_def)

lemma clamp_diagonal_entry_asDiagonal:
  "clamp_diagonal_entry lo hi i (asDiagonal d) = asDiagonal (d(i := clamp_value lo hi (d i)))"
  by (simp add: clamp_diagonal_entry_def clamp_value_def coeff_asDiagonal set_coeff_asDiagonal)

lemma clamp_loop_asDiagonal:
  "fold (clamp_diagonal_entry lo hi) [I0, I1, I2] (asDiagonal d) =
     asDiagonal (\<lambda>i. clamp_value lo hi (d i))"
proof -
  have "d(I0 := clamp_value lo hi (d I0), I1 := clamp_value lo hi (d I1),
          I2 := clamp_value lo hi (d I2)) = (\<lambda>i. clamp_value lo hi (d i))"
    by (simp add: fun_eq_iff idx_all)
  then show ?thesis
    by (simp add: clamp_diagonal_entry_asDiagonal)
qed

text \<open>The two paths through \<open>PolDec\<close>: without and with the correction.\<close>

lemma PolDec_proper:
  assumes "\<not> determinant (matrixU (compute (M_ref st)) * transpose3 (matrixV (compute (M_ref st)))) < 0"
  shows "PolDec compute st =
    (let svd = compute (M_ref st);
         R = matrixU svd * transpose3 (matrixV svd);
         T = matrixV svd
             * asDiagonal (\<lambda>i. clamp_value (3 / 10) 2 (singularValues svd i))
             * transpose3 (matrixV svd)
     in (\<bar>determinant R - 1\<bar> < 1 / 10 ^ 8, st\<lparr>M_ref := R * T, R_ref := R, T_ref := T\<rparr>))"
  using assms by (simp add: PolDec_def Let_def clamp_loop_asDiagonal del: fold.simps)

lemma PolDec_improper:
  assumes "determinant (matrixU (compute (M_ref st)) * transpose3 (matrixV (compute (M_ref st)))) < 0"
  shows "PolDec compute st =
    (let svd = compute (M_ref st);
         imin = minCoeff_index (singularValues svd);
         d = (singularValues svd)(imin := - singularValues svd imin);
         svd2 = compute (matrixU svd * asDiagonal d * transpose3 (matrixV svd));
         R = matrixU svd2 * transpose3 (matrixV svd2);
         T = matrixV svd2
             * asDiagonal (\<lambda>i. clamp_value (3 / 10) 2 (d i))
             * transpose3 (matrixV svd2)
     in (\<bar>determinant R - 1\<bar> < 1 / 10 ^ 8, st\<lparr>M_ref := R * T, R_ref := R, T_ref := T\<rparr>))"
  using assms
  by (simp add: PolDec_def Let_def coeff_asDiagonal_diag set_coeff_asDiagonal
      clamp_loop_asDiagonal del: fold.simps)

text \<open>
  On both paths the outputs are built from the factors of one call of the
  decomposition and from clamped diagonal entries.
\<close>

lemma PolDec_shape:
  "\<exists>X d. PolDec compute st =
       (\<bar>determinant (matrixU (compute X) * transpose3 (matrixV (compute X))) - 1\<bar> < 1 / 10 ^ 8,
        st\<lparr>M_ref := matrixU (compute X) * transpose3 (matrixV (compute X))
                     * (matrixV (compute X) * asDiagonal (\<lambda>i. clamp_value (3 / 10) 2 (d i))
                        * transpose3 (matrixV (compute X))),
           R_ref := matrixU (compute X) * transpose3 (matrixV (compute X)),
           T_ref := matrixV (compute X) * asDiagonal (\<lambda>i. clamp_value (3 / 10) 2 (d i))
                    * transpose3 (matrixV (compute X))\<rparr>)"
proof (cases "determinant (matrixU (compute (M_ref st)) * transpose3 (matrixV (compute (M_ref st)))) < 0")
  case False
  show ?thesis
    unfolding PolDec_proper [of compute st, OF False] Let_def by blast
next
  case True
  show ?thesis
    unfolding PolDec_improper [of compute st, OF True] Let_def by blast
qed

lemma PolDec_overwrites:
  "PolDec compute (st\<lparr>R_ref := R0, T_ref := T0\<rparr>) = PolDec compute st"
  by (simp add: PolDec_def Let_def split: prod.split)

text \<open>
  Two runs.  The reflection \<open>diag(1, 1, -1)\<close> of the spec takes the correction and ends
  with a proper rotation.  For \<open>diag(-1, 1, 0)\<close> the smallest singular value is \<open>0\<close>,
  flipping it changes nothing and the rotation stays improper: the function returns
  false, with \<open>R\<close> and \<open>T\<close> written.
\<close>

lemma PolDec_reflection_example:
  "PolDec svd_diagonal \<lparr>M_ref = diag3 1 1 (- 1), R_ref = 0, T_ref = 0\<rparr> =
     (True, \<lparr>M_ref = diag3 (- 3 / 10) 1 (- 1), R_ref = diag3 (- 1) 1 (- 1),
             T_ref = diag3 (3 / 10) 1 1\<rparr>)"
proof -
  have det: "determinant (matrixU (svd_diagonal (diag3 1 1 (- 1)))
               * transpose3 (matrixV (svd_diagonal (diag3 1 1 (- 1))))) < 0"
    by (simp add: diag3_def svd_diagonal_asDiagonal transpose3_one determinant_asDiagonal
        vec3_simps)
  show ?thesis
    apply (subst PolDec_improper)
     apply (simp add: det)
    apply (simp add: Let_def diag3_def svd_diagonal_asDiagonal transpose3_one asDiagonal_times
        determinant_asDiagonal vec3_simps clamp_value_def asDiagonal_eq_iff vec3_eq_iff
        minCoeff_index_def)
    done
qed

lemma PolDec_singular_example:
  "PolDec svd_diagonal \<lparr>M_ref = diag3 (- 1) 1 0, R_ref = 0, T_ref = 0\<rparr> =
     (False, \<lparr>M_ref = diag3 (- 1) 1 (3 / 10), R_ref = diag3 (- 1) 1 1,
              T_ref = diag3 1 1 (3 / 10)\<rparr>)"
proof -
  have det: "determinant (matrixU (svd_diagonal (diag3 (- 1) 1 0))
               * transpose3 (matrixV (svd_diagonal (diag3 (- 1) 1 0)))) < 0"
    by (simp add: diag3_def svd_diagonal_asDiagonal transpose3_one determinant_asDiagonal
        vec3_simps)
  show ?thesis
    apply (subst PolDec_improper)
     apply (simp add: det)
    apply (simp add: Let_def diag3_def svd_diagonal_asDiagonal transpose3_one asDiagonal_times
        determinant_asDiagonal vec3_simps clamp_value_def asDiagonal_eq_iff vec3_eq_iff
        minCoeff_index_def)
    done
qed

text \<open>
  Claim C1.  If the decomposition returns orthogonal \<open>U\<close> and \<open>V\<close>, then after
  \<open>PolDec\<close> the matrix \<open>R\<close> is orthogonal (\<open>R\<^sup>T R = I\<close>), \<open>T\<close> is symmetric and every
  eigenvalue of \<open>T\<close> lies in \<open>[0.3, 2.0]\<close>.  That the singular values are not negative
  is not needed.
\<close>

theorem PolDec_rotation_stretch:
  assumes "\<forall>X. orthogonal (matrixU (compute X)) \<and> orthogonal (matrixV (compute X))"
  shows "orthogonal (R_ref (snd (PolDec compute st)))
    \<and> symmetric (T_ref (snd (PolDec compute st)))
    \<and> (\<forall>ev. eigenvalue (T_ref (snd (PolDec compute st))) ev \<longrightarrow> 3 / 10 \<le> ev \<and> ev \<le> 2)"
proof -
  obtain X d where p: "PolDec compute st =
       (\<bar>determinant (matrixU (compute X) * transpose3 (matrixV (compute X))) - 1\<bar> < 1 / 10 ^ 8,
        st\<lparr>M_ref := matrixU (compute X) * transpose3 (matrixV (compute X))
                     * (matrixV (compute X) * asDiagonal (\<lambda>i. clamp_value (3 / 10) 2 (d i))
                        * transpose3 (matrixV (compute X))),
           R_ref := matrixU (compute X) * transpose3 (matrixV (compute X)),
           T_ref := matrixV (compute X) * asDiagonal (\<lambda>i. clamp_value (3 / 10) 2 (d i))
                    * transpose3 (matrixV (compute X))\<rparr>)"
    using PolDec_shape [of compute st] by blast
  define U where "U = matrixU (compute X)"
  define V where "V = matrixV (compute X)"
  define c where "c = (\<lambda>i. clamp_value (3 / 10) 2 (d i))"
  have u: "orthogonal U" and v: "orthogonal V"
    using assms by (simp_all add: U_def V_def)
  have r: "R_ref (snd (PolDec compute st)) = U * transpose3 V"
    and t: "T_ref (snd (PolDec compute st)) = V * asDiagonal c * transpose3 V"
    by (simp_all add: p U_def V_def c_def)
  have "orthogonal (U * transpose3 V)"
    using u v by (simp add: orthogonal_times orthogonal_transpose3)
  moreover have "symmetric (V * asDiagonal c * transpose3 V)"
    by (rule symmetric_similar_diagonal)
  moreover have "3 / 10 \<le> ev \<and> ev \<le> 2"
    if "eigenvalue (V * asDiagonal c * transpose3 V) ev" for ev
  proof -
    have vw: "V * transpose3 V = 1"
      using v by (rule orthogonal_right)
    have wv: "transpose3 V * V = 1"
      using v by (simp add: orthogonal_def)
    have "\<exists>i. ev = c i"
      by (rule eigenvalue_similar_diagonal [OF vw wv that])
    then obtain i where "ev = c i" ..
    then show ?thesis
      using clamp_value_range [of "3 / 10" 2 "d i"] by (simp add: c_def)
  qed
  ultimately show ?thesis
    by (simp add: r t)
qed

theorem PolDec_rotation_stretch_witness:
  "(\<forall>X. orthogonal (matrixU (svd_diagonal X)) \<and> orthogonal (matrixV (svd_diagonal X)))
   \<and> orthogonal (R_ref (snd (PolDec svd_diagonal \<lparr>M_ref = diag3 1 1 (- 1), R_ref = 0, T_ref = 0\<rparr>)))
   \<and> symmetric (T_ref (snd (PolDec svd_diagonal \<lparr>M_ref = diag3 1 1 (- 1), R_ref = 0, T_ref = 0\<rparr>)))
   \<and> eigenvalue (T_ref (snd (PolDec svd_diagonal \<lparr>M_ref = diag3 1 1 (- 1), R_ref = 0, T_ref = 0\<rparr>)))
       (3 / 10)
   \<and> T_ref (snd (PolDec svd_diagonal \<lparr>M_ref = diag3 1 1 (- 1), R_ref = 0, T_ref = 0\<rparr>))
       = diag3 (3 / 10) 1 1"
  using PolDec_rotation_stretch [of svd_diagonal "\<lparr>M_ref = diag3 1 1 (- 1), R_ref = 0, T_ref = 0\<rparr>"]
    svd_diagonal_orthogonal eigenvalue_diag3_first [of "3 / 10" 1 1]
  by (simp add: PolDec_reflection_example)

text \<open>
  Claim C2.  The boolean \<open>PolDec\<close> returns is the test \<open>\<bar>det R - 1\<bar> < 10\<^sup>-\<^sup>8\<close> on the \<open>R\<close>
  it hands back.  What \<open>R\<close> and \<open>T\<close> held before the call has no influence on the
  result: both are overwritten on every path, and a run that returns false
  (\<open>diag(-1, 1, 0)\<close>) hands back the \<open>R\<close> and \<open>T\<close> it computed.
\<close>

theorem PolDec_return_value:
  "fst (PolDec compute st) = (\<bar>determinant (R_ref (snd (PolDec compute st))) - 1\<bar> < 1 / 10 ^ 8)
   \<and> PolDec compute (st\<lparr>R_ref := R0, T_ref := T0\<rparr>) = PolDec compute st
   \<and> PolDec svd_diagonal \<lparr>M_ref = diag3 (- 1) 1 0, R_ref = 0, T_ref = 0\<rparr> =
       (False, \<lparr>M_ref = diag3 (- 1) 1 (3 / 10), R_ref = diag3 (- 1) 1 1,
                T_ref = diag3 1 1 (3 / 10)\<rparr>)"
proof -
  obtain X d where p: "PolDec compute st =
       (\<bar>determinant (matrixU (compute X) * transpose3 (matrixV (compute X))) - 1\<bar> < 1 / 10 ^ 8,
        st\<lparr>M_ref := matrixU (compute X) * transpose3 (matrixV (compute X))
                     * (matrixV (compute X) * asDiagonal (\<lambda>i. clamp_value (3 / 10) 2 (d i))
                        * transpose3 (matrixV (compute X))),
           R_ref := matrixU (compute X) * transpose3 (matrixV (compute X)),
           T_ref := matrixV (compute X) * asDiagonal (\<lambda>i. clamp_value (3 / 10) 2 (d i))
                    * transpose3 (matrixV (compute X))\<rparr>)"
    using PolDec_shape [of compute st] by blast
  have "fst (PolDec compute st) = (\<bar>determinant (R_ref (snd (PolDec compute st))) - 1\<bar> < 1 / 10 ^ 8)"
    by (simp add: p)
  then show ?thesis
    by (simp only: PolDec_overwrites PolDec_singular_example simp_thms)
qed

text \<open>
  Claim C3.  When \<open>det(U V\<^sup>T) < 0\<close> for the factors of the first decomposition, whose
  singular values are not negative, the \<open>R\<close> and \<open>T\<close> that \<open>PolDec\<close> hands back are those
  of the correction as the spec describes it: the first singular value of smallest
  magnitude is negated, \<open>F = U S V\<^sup>T\<close> is decomposed again, \<open>R = U' V'\<^sup>T\<close>, and \<open>T\<close> is
  built from the clamped flipped \<open>S\<close> and the \<open>V'\<close> of the second decomposition.
\<close>

theorem PolDec_correction_branch:
  assumes "determinant (matrixU (compute (M_ref st)) * transpose3 (matrixV (compute (M_ref st)))) < 0"
    and "\<forall>i. 0 \<le> singularValues (compute (M_ref st)) i"
  shows "R_ref (snd (PolDec compute st)) = fst (PolDec_correction_spec compute (M_ref st))
    \<and> T_ref (snd (PolDec compute st)) = snd (PolDec_correction_spec compute (M_ref st))"
proof -
  have k: "minCoeff_index (singularValues (compute (M_ref st)))
      = smallest_magnitude_first (singularValues (compute (M_ref st)))"
    using assms(2) by (rule minCoeff_index_nonneg)
  have c: "clamp_value (3 / 10) 2 x = max (3 / 10) (min 2 x)" for x
    by (rule clamp_value_max_min) simp
  show ?thesis
    unfolding PolDec_improper [of compute st, OF assms(1)] PolDec_correction_spec_def Let_def k c
    by simp
qed

theorem PolDec_correction_branch_witness:
  "determinant (matrixU (svd_diagonal (diag3 1 1 (- 1)))
       * transpose3 (matrixV (svd_diagonal (diag3 1 1 (- 1))))) < 0
   \<and> (\<forall>i. 0 \<le> singularValues (svd_diagonal (diag3 1 1 (- 1))) i)
   \<and> smallest_magnitude_first (singularValues (svd_diagonal (diag3 1 1 (- 1)))) = I0
   \<and> fst (PolDec_correction_spec svd_diagonal (diag3 1 1 (- 1))) = diag3 (- 1) 1 (- 1)
   \<and> snd (PolDec_correction_spec svd_diagonal (diag3 1 1 (- 1))) = diag3 (3 / 10) 1 1"
proof -
  have det: "determinant (matrixU (svd_diagonal (diag3 1 1 (- 1)))
               * transpose3 (matrixV (svd_diagonal (diag3 1 1 (- 1))))) < 0"
    by (simp add: diag3_def svd_diagonal_asDiagonal transpose3_one determinant_asDiagonal
        vec3_simps)
  have nn: "\<forall>i. 0 \<le> singularValues (svd_diagonal (diag3 1 1 (- 1))) i"
    by (simp add: svd_diagonal_def)
  have k: "smallest_magnitude_first (singularValues (svd_diagonal (diag3 1 1 (- 1)))) = I0"
    by (simp add: diag3_def svd_diagonal_asDiagonal smallest_magnitude_first_def vec3_simps)
  show ?thesis
    using PolDec_correction_branch [of svd_diagonal "\<lparr>M_ref = diag3 1 1 (- 1), R_ref = 0, T_ref = 0\<rparr>"]
      det nn k
    by (simp add: PolDec_reflection_example)
qed

text \<open>
  Claim C7.  On return \<open>M\<close> is the product \<open>R T\<close> of the two outputs, and everything the
  caller owns besides \<open>M\<close>, \<open>R\<close> and \<open>T\<close> is as before.  The old \<open>M\<close> is lost: the
  reflection \<open>diag(1, 1, -1)\<close> comes back as \<open>diag(-0.3, 1, -1)\<close>.
\<close>

theorem PolDec_overwrites_M:
  "M_ref (snd (PolDec compute st)) = R_ref (snd (PolDec compute st)) * T_ref (snd (PolDec compute st))
   \<and> PolDec_refs.more (snd (PolDec compute st)) = PolDec_refs.more st
   \<and> M_ref (snd (PolDec svd_diagonal \<lparr>M_ref = diag3 1 1 (- 1), R_ref = 0, T_ref = 0\<rparr>))
       \<noteq> diag3 1 1 (- 1)"
proof -
  obtain X d where p: "PolDec compute st =
       (\<bar>determinant (matrixU (compute X) * transpose3 (matrixV (compute X))) - 1\<bar> < 1 / 10 ^ 8,
        st\<lparr>M_ref := matrixU (compute X) * transpose3 (matrixV (compute X))
                     * (matrixV (compute X) * asDiagonal (\<lambda>i. clamp_value (3 / 10) 2 (d i))
                        * transpose3 (matrixV (compute X))),
           R_ref := matrixU (compute X) * transpose3 (matrixV (compute X)),
           T_ref := matrixV (compute X) * asDiagonal (\<lambda>i. clamp_value (3 / 10) 2 (d i))
                    * transpose3 (matrixV (compute X))\<rparr>)"
    using PolDec_shape [of compute st] by blast
  have "diag3 (- 3 / 10) 1 (- 1) \<noteq> diag3 1 1 (- 1)"
    by (simp add: diag3_def asDiagonal_eq_iff vec3_eq_iff vec3_simps)
  then show ?thesis
    by (simp add: p PolDec_reflection_example)
qed

subsection \<open>pseudo\_inverse\_SVD\<close>

text \<open>The loop fills every entry, whatever the vector held before.\<close>

lemma pinv_loop:
  "fold (\<lambda>row inv. if sv row > t then inv(row := 1 / sv row) else inv(row := 1)) [I0, I1, I2] init
   = (\<lambda>row. if sv row > t then 1 / sv row else (1::real))"
  by (simp add: fun_eq_iff idx_all)

text \<open>A singular matrix: the direction of the singular value \<open>0\<close> gets the entry \<open>1\<close>.\<close>

lemma pseudo_inverse_SVD_example:
  "pseudo_inverse_SVD svd_diagonal (diag3 2 0 (- 4)) = diag3 (1 / 2) 1 (- 1 / 4)"
  unfolding pseudo_inverse_SVD_def Let_def pinv_loop
  by (simp add: diag3_def svd_diagonal_asDiagonal transpose3_asDiagonal asDiagonal_times
      vec3_simps asDiagonal_eq_iff vec3_eq_iff)

text \<open>
  Claim C4.  Whatever the decomposition returns, \<open>pseudo_inverse_SVD\<close> returns
  \<open>V diag(s') U\<^sup>T\<close> where \<open>s'\<^sub>i\<close> is \<open>1 / s\<^sub>i\<close> if \<open>s\<^sub>i > 10\<^sup>-\<^sup>6\<close> and \<open>1\<close> otherwise; every
  \<open>s'\<^sub>i\<close> is positive and below \<open>10\<^sup>6\<close>, so neither zero nor infinite.
\<close>

theorem pseudo_inverse_SVD_total:
  "pseudo_inverse_SVD compute M =
     matrixV (compute M)
     * asDiagonal (\<lambda>i. if singularValues (compute M) i > 1 / 10 ^ 6
                        then 1 / singularValues (compute M) i else 1)
     * transpose3 (matrixU (compute M))
   \<and> 0 < (if singularValues (compute M) i > 1 / 10 ^ 6
          then 1 / singularValues (compute M) i else 1)
   \<and> (if singularValues (compute M) i > 1 / 10 ^ 6
       then 1 / singularValues (compute M) i else 1) < 10 ^ 6"
proof -
  define s where "s = singularValues (compute M) i"
  have "0 < 1 / s \<and> 1 / s < 10 ^ 6" if "s > 1 / 10 ^ 6"
  proof -
    from that have "0 < s" by simp
    with that show ?thesis by (simp add: field_simps)
  qed
  then have "0 < (if s > 1 / 10 ^ 6 then 1 / s else 1)
      \<and> (if s > 1 / 10 ^ 6 then 1 / s else 1) < 10 ^ 6"
    by simp
  then show ?thesis
    unfolding pseudo_inverse_SVD_def Let_def pinv_loop s_def by simp
qed

subsection \<open>LimitEigenvalues\<close>

text \<open>
  With an invertible matrix of eigenvectors, diagonalising, dividing by \<open>scale\<close> and
  undoing the diagonalisation divides \<open>S\<close> by \<open>scale\<close>; both branches do so with
  \<open>scale = max(|\<lambda>_max|, |\<lambda>_min|) / limit\<close>.
\<close>

lemma LimitEigenvalues_unfold:
  assumes "eigen_decomposition S (compute S)"
  shows "LimitEigenvalues compute S limit =
     (if largest_magnitude (eigenvalues (compute S)) > limit
      then S /\<^sub>R (largest_magnitude (eigenvalues (compute S)) / limit) else S)"
proof -
  have r: "eigenvectors (compute S) * ((inverse3 (eigenvectors (compute S)) * S * eigenvectors (compute S)) /\<^sub>R c)
      * inverse3 (eigenvectors (compute S)) = S /\<^sub>R c" for c
    by (rule similarity_rescale) (rule eigen_decomposition_inverse(1) [OF assms])
  show ?thesis
    unfolding LimitEigenvalues_def Let_def r largest_magnitude_def
    by (auto simp: max_def)
qed

text \<open>Two runs: one that rescales and one that leaves \<open>S\<close> as it is.\<close>

lemma LimitEigenvalues_example:
  "LimitEigenvalues eig_diagonal (diag3 4 1 (- 2)) 2 = diag3 2 (1 / 2) (- 1)"
  by (simp add: LimitEigenvalues_def eig_diagonal_def diag3_def coeff_asDiagonal
      vec3_simps maxCoeff_def minCoeff_def inverse3_one scaleR_asDiagonal asDiagonal_eq_iff vec3_eq_iff)

lemma LimitEigenvalues_example_unchanged:
  "LimitEigenvalues eig_diagonal (diag3 1 1 (- 1)) 2 = diag3 1 1 (- 1)"
  by (simp add: LimitEigenvalues_def eig_diagonal_def diag3_def coeff_asDiagonal
      vec3_simps maxCoeff_def minCoeff_def)

text \<open>
  Claim C5, as amended.  For a limit \<open>> 0\<close> and a symmetric \<open>S\<close> that the solver has
  decomposed: if \<open>max(|\<lambda>_max|, |\<lambda>_min|)\<close>, which bounds the magnitude of every
  eigenvalue of \<open>S\<close>, does not exceed the limit, \<open>S\<close> is returned as it is; otherwise
  the result is \<open>S\<close> times the single factor
  \<open>limit / max(|\<lambda>_max|, |\<lambda>_min|)\<close>, its eigenvalues are those of \<open>S\<close> times that factor
  (so their ratios are those of \<open>S\<close>), and an eigenvalue of \<open>S\<close> of the largest
  magnitude is brought to magnitude \<open>limit\<close>.
\<close>

theorem LimitEigenvalues_rescales:
  assumes "0 < limit" and "eigen_decomposition S (compute S)"
  shows "(largest_magnitude (eigenvalues (compute S)) \<le> limit \<longrightarrow>
           LimitEigenvalues compute S limit = S)
    \<and> (\<forall>ev. eigenvalue S ev \<longrightarrow> \<bar>ev\<bar> \<le> largest_magnitude (eigenvalues (compute S)))
    \<and> (largest_magnitude (eigenvalues (compute S)) > limit \<longrightarrow>
         LimitEigenvalues compute S limit
           = (limit / largest_magnitude (eigenvalues (compute S))) *\<^sub>R S
         \<and> (\<forall>ev. eigenvalue (LimitEigenvalues compute S limit)
                    (limit / largest_magnitude (eigenvalues (compute S)) * ev)
                  = eigenvalue S ev)
         \<and> (\<exists>ev. eigenvalue S ev \<and> \<bar>ev\<bar> = largest_magnitude (eigenvalues (compute S))
               \<and> \<bar>limit / largest_magnitude (eigenvalues (compute S)) * ev\<bar> = limit))"
proof -
  define a where "a = largest_magnitude (eigenvalues (compute S))"
  have u: "LimitEigenvalues compute S limit = (if a > limit then S /\<^sub>R (a / limit) else S)"
    unfolding a_def using assms(2) by (rule LimitEigenvalues_unfold)
  have 1: "LimitEigenvalues compute S limit = S" if "a \<le> limit"
    using that by (simp add: u)
  have 2: "LimitEigenvalues compute S limit = (limit / a) *\<^sub>R S" if "a > limit"
    using that by (simp add: u)
  have 3: "eigenvalue (LimitEigenvalues compute S limit) (limit / a * ev) = eigenvalue S ev"
    if "a > limit" for ev
  proof -
    have "limit / a \<noteq> 0"
      using that assms(1) by simp
    then show ?thesis
      unfolding 2 [OF that] by (rule eigenvalue_scaleR)
  qed
  have 4: "\<exists>ev. eigenvalue S ev \<and> \<bar>ev\<bar> = a \<and> \<bar>limit / a * ev\<bar> = limit" if "a > limit"
  proof -
    obtain i where i: "\<bar>eigenvalues (compute S) i\<bar> = a"
      unfolding a_def using largest_magnitude_entry by blast
    have "eigenvalue S (eigenvalues (compute S) i)"
      unfolding eigenvalue_decomposition_iff [OF assms(2)] by blast
    moreover have "\<bar>limit / a * eigenvalues (compute S) i\<bar> = limit"
      using that assms(1) by (simp add: abs_mult i)
    ultimately show ?thesis
      using i by blast
  qed
  have 5: "\<bar>ev\<bar> \<le> a" if "eigenvalue S ev" for ev
  proof -
    have "\<exists>i. ev = eigenvalues (compute S) i"
      using that by (simp only: eigenvalue_decomposition_iff [OF assms(2)])
    then obtain i where "ev = eigenvalues (compute S) i" ..
    then show ?thesis
      unfolding a_def by (simp add: largest_magnitude_bound)
  qed
  show ?thesis
    unfolding a_def [symmetric] using 1 2 3 4 5 by blast
qed

theorem LimitEigenvalues_rescales_witness:
  "(0::real) < 2
   \<and> eigen_decomposition (diag3 4 1 (- 2)) (eig_diagonal (diag3 4 1 (- 2)))
   \<and> largest_magnitude (eigenvalues (eig_diagonal (diag3 4 1 (- 2)))) = 4
   \<and> LimitEigenvalues eig_diagonal (diag3 4 1 (- 2)) 2 = (2 / 4) *\<^sub>R diag3 4 1 (- 2)
   \<and> eigenvalue (diag3 4 1 (- 2)) 4
   \<and> eigenvalue (LimitEigenvalues eig_diagonal (diag3 4 1 (- 2)) 2) (2 / 4 * 4)
   \<and> eigen_decomposition (diag3 1 1 (- 1)) (eig_diagonal (diag3 1 1 (- 1)))
   \<and> largest_magnitude (eigenvalues (eig_diagonal (diag3 1 1 (- 1)))) = 1
   \<and> LimitEigenvalues eig_diagonal (diag3 1 1 (- 1)) 2 = diag3 1 1 (- 1)"
proof -
  have h1: "(0::real) < 2"
    by simp
  have h2: "eigen_decomposition (diag3 4 1 (- 2)) (eig_diagonal (diag3 4 1 (- 2)))"
    unfolding diag3_def by (rule eig_diagonal_decomposition)
  have h3: "eigen_decomposition (diag3 1 1 (- 1)) (eig_diagonal (diag3 1 1 (- 1)))"
    unfolding diag3_def by (rule eig_diagonal_decomposition)
  have a: "largest_magnitude (eigenvalues (eig_diagonal (diag3 4 1 (- 2)))) = 4"
    by (simp add: largest_magnitude_def eig_diagonal_def diag3_def coeff_asDiagonal
        vec3_simps maxCoeff_def minCoeff_def)
  have b: "largest_magnitude (eigenvalues (eig_diagonal (diag3 1 1 (- 1)))) = 1"
    by (simp add: largest_magnitude_def eig_diagonal_def diag3_def coeff_asDiagonal
        vec3_simps maxCoeff_def minCoeff_def)
  note th = LimitEigenvalues_rescales [of 2 "diag3 4 1 (- 2)" eig_diagonal, OF h1 h2, unfolded a]
  note th' = LimitEigenvalues_rescales [of 2 "diag3 1 1 (- 1)" eig_diagonal, OF h1 h3, unfolded b]
  have e: "eigenvalue (diag3 4 1 (- 2)) 4"
    by (rule eigenvalue_diag3_first)
  have g: "(2::real) < 4" and g': "(1::real) \<le> 2"
    by simp_all
  note c = mp [OF th [THEN conjunct2, THEN conjunct2] g]
  have r: "LimitEigenvalues eig_diagonal (diag3 4 1 (- 2)) 2 = (2 / 4) *\<^sub>R diag3 4 1 (- 2)"
    by (rule c [THEN conjunct1])
  have q: "eigenvalue (LimitEigenvalues eig_diagonal (diag3 4 1 (- 2)) 2) (2 / 4 * 4)
        = eigenvalue (diag3 4 1 (- 2)) 4"
    by (rule c [THEN conjunct2, THEN conjunct1, THEN spec])
  have u: "LimitEigenvalues eig_diagonal (diag3 1 1 (- 1)) 2 = diag3 1 1 (- 1)"
    by (rule mp [OF th' [THEN conjunct1] g'])
  from q e have q': "eigenvalue (LimitEigenvalues eig_diagonal (diag3 4 1 (- 2)) 2) (2 / 4 * 4)"
    by (simp only: simp_thms)
  from h1 h2 a r e q' h3 b u show ?thesis
    by (intro conjI)
qed

text \<open>
  Claim C5 as stated is for every limit and brings the extreme eigenvalue to the limit
  itself.  For \<open>S = diag(-2, -1, 0)\<close> and the limit \<open>-1\<close> the scale is \<open>2 / (-1)\<close> and
  the result \<open>diag(1, 0.5, 0)\<close> has no eigenvalue \<open>-1\<close> (and none of magnitude \<open>-1\<close>);
  for the limit \<open>1\<close> the result is \<open>diag(-1, -0.5, 0)\<close>: the extreme eigenvalue has
  magnitude \<open>1\<close>, but the value \<open>1\<close> is no eigenvalue.
\<close>

theorem LimitEigenvalues_negative_limit_counterexample:
  "eigen_decomposition (diag3 (- 2) (- 1) 0) (eig_diagonal (diag3 (- 2) (- 1) 0))
   \<and> largest_magnitude (eigenvalues (eig_diagonal (diag3 (- 2) (- 1) 0))) = 2
   \<and> LimitEigenvalues eig_diagonal (diag3 (- 2) (- 1) 0) (- 1) = diag3 1 (1 / 2) 0
   \<and> \<not> eigenvalue (LimitEigenvalues eig_diagonal (diag3 (- 2) (- 1) 0) (- 1)) (- 1)
   \<and> LimitEigenvalues eig_diagonal (diag3 (- 2) (- 1) 0) 1 = diag3 (- 1) (- 1 / 2) 0
   \<and> \<not> eigenvalue (LimitEigenvalues eig_diagonal (diag3 (- 2) (- 1) 0) 1) 1"
proof -
  have d: "eigen_decomposition (diag3 (- 2) (- 1) 0) (eig_diagonal (diag3 (- 2) (- 1) 0))"
    unfolding diag3_def by (rule eig_diagonal_decomposition)
  have a: "largest_magnitude (eigenvalues (eig_diagonal (diag3 (- 2) (- 1) 0))) = 2"
    by (simp add: largest_magnitude_def eig_diagonal_def diag3_def coeff_asDiagonal
        vec3_simps maxCoeff_def minCoeff_def)
  have l: "LimitEigenvalues eig_diagonal (diag3 (- 2) (- 1) 0) (- 1) = diag3 1 (1 / 2) 0"
    by (simp add: LimitEigenvalues_def eig_diagonal_def diag3_def coeff_asDiagonal
      vec3_simps maxCoeff_def minCoeff_def inverse3_one scaleR_asDiagonal asDiagonal_eq_iff vec3_eq_iff)
  have n: "\<not> eigenvalue (diag3 1 (1 / 2) 0) (- 1)"
    by (simp add: diag3_def eigenvalue_asDiagonal idx_ex vec3_simps)
  have l': "LimitEigenvalues eig_diagonal (diag3 (- 2) (- 1) 0) 1 = diag3 (- 1) (- 1 / 2) 0"
    by (simp add: LimitEigenvalues_def eig_diagonal_def diag3_def coeff_asDiagonal
      vec3_simps maxCoeff_def minCoeff_def inverse3_one scaleR_asDiagonal asDiagonal_eq_iff vec3_eq_iff)
  have n': "\<not> eigenvalue (diag3 (- 1) (- 1 / 2) 0) 1"
    by (simp add: diag3_def eigenvalue_asDiagonal idx_ex vec3_simps)
  show ?thesis
    unfolding l l' using d a n n' by (intro conjI) simp_all
qed

subsection \<open>LimitMinMaxEigenvalues\<close>

lemma LimitMinMaxEigenvalues_unfold:
  "LimitMinMaxEigenvalues compute S minv maxv =
     (if maxCoeff (eigenvalues (compute S)) > maxv \<or> minCoeff (eigenvalues (compute S)) < minv
      then (True, eigenvectors (compute S)
                  * asDiagonal (\<lambda>i. clamp_value minv maxv (eigenvalues (compute S) i))
                  * inverse3 (eigenvectors (compute S)))
      else (False, S))"
  by (simp add: LimitMinMaxEigenvalues_def Let_def clamp_loop_asDiagonal del: fold.simps)

lemma LimitMinMaxEigenvalues_fst:
  "fst (LimitMinMaxEigenvalues compute S minv maxv)
     = (maxCoeff (eigenvalues (compute S)) > maxv \<or> minCoeff (eigenvalues (compute S)) < minv)"
  by (simp add: LimitMinMaxEigenvalues_unfold)

lemma LimitMinMaxEigenvalues_snd_True:
  "fst (LimitMinMaxEigenvalues compute S minv maxv) \<Longrightarrow>
   snd (LimitMinMaxEigenvalues compute S minv maxv)
     = eigenvectors (compute S)
       * asDiagonal (\<lambda>i. clamp_value minv maxv (eigenvalues (compute S) i))
       * inverse3 (eigenvectors (compute S))"
  by (auto simp: LimitMinMaxEigenvalues_unfold)

lemma LimitMinMaxEigenvalues_snd_False:
  "\<not> fst (LimitMinMaxEigenvalues compute S minv maxv) \<Longrightarrow>
   snd (LimitMinMaxEigenvalues compute S minv maxv) = S"
  by (auto simp: LimitMinMaxEigenvalues_unfold)

lemma LimitMinMaxEigenvalues_clipped:
  assumes "minv \<le> maxv" and "eigen_decomposition S (compute S)"
    and "fst (LimitMinMaxEigenvalues compute S minv maxv)"
    and "eigenvalue (snd (LimitMinMaxEigenvalues compute S minv maxv)) ev"
  shows "minv \<le> ev \<and> ev \<le> maxv"
proof -
  define c where "c = (\<lambda>i. clamp_value minv maxv (eigenvalues (compute S) i))"
  have "snd (LimitMinMaxEigenvalues compute S minv maxv)
      = eigenvectors (compute S) * asDiagonal c * inverse3 (eigenvectors (compute S))"
    using assms(3) by (simp add: LimitMinMaxEigenvalues_snd_True c_def)
  with assms(4) have "\<exists>i. ev = c i"
    using eigenvalue_similar_diagonal [OF eigen_decomposition_inverse(1,2) [OF assms(2)]]
    by simp
  then obtain i where "ev = c i" ..
  then show ?thesis
    using clamp_value_range [OF assms(1)] by (simp add: c_def)
qed

text \<open>The scenario of the spec, and the call repeated on its result.\<close>

lemma LimitMinMaxEigenvalues_example:
  "LimitMinMaxEigenvalues eig_diagonal (diag3 5 1 (- 5)) (- 2) 2 = (True, diag3 2 1 (- 2))"
  by (simp add: LimitMinMaxEigenvalues_unfold eig_diagonal_def diag3_def coeff_asDiagonal
      vec3_simps maxCoeff_def inverse3_one clamp_value_def asDiagonal_eq_iff vec3_eq_iff)

lemma LimitMinMaxEigenvalues_example_again:
  "LimitMinMaxEigenvalues eig_diagonal (diag3 2 1 (- 2)) (- 2) 2 = (False, diag3 2 1 (- 2))"
  by (simp add: LimitMinMaxEigenvalues_unfold eig_diagonal_def diag3_def coeff_asDiagonal
      vec3_simps maxCoeff_def minCoeff_def)

text \<open>
  Claim C6.  For bounds \<open>min \<le> max\<close> and a symmetric \<open>S\<close> that the solver has
  decomposed, \<open>LimitMinMaxEigenvalues\<close> returns true if and only if the largest
  eigenvalue exceeds \<open>max\<close> or the smallest is below \<open>min\<close>, that is, if and only if
  some eigenvalue of \<open>S\<close> lies outside \<open>[min, max]\<close>.  When it returns true, the new \<open>S\<close>
  is \<open>V diag(clipped) V\<^sup>-\<^sup>1\<close> with every eigenvalue clipped on its own and the
  eigenvectors of the solver, and every eigenvalue of the new \<open>S\<close> lies in
  \<open>[min, max]\<close>; when it returns false, \<open>S\<close> is as before.
\<close>

theorem LimitMinMaxEigenvalues_clamps:
  assumes "minv \<le> maxv" and "eigen_decomposition S (compute S)"
  shows "fst (LimitMinMaxEigenvalues compute S minv maxv)
           = (maxCoeff (eigenvalues (compute S)) > maxv \<or> minCoeff (eigenvalues (compute S)) < minv)
    \<and> fst (LimitMinMaxEigenvalues compute S minv maxv)
           = (\<exists>ev. eigenvalue S ev \<and> (ev > maxv \<or> ev < minv))
    \<and> (fst (LimitMinMaxEigenvalues compute S minv maxv) \<longrightarrow>
         snd (LimitMinMaxEigenvalues compute S minv maxv)
           = eigenvectors (compute S)
             * asDiagonal (\<lambda>i. max minv (min maxv (eigenvalues (compute S) i)))
             * inverse3 (eigenvectors (compute S))
         \<and> (\<forall>ev. eigenvalue (snd (LimitMinMaxEigenvalues compute S minv maxv)) ev
               \<longrightarrow> minv \<le> ev \<and> ev \<le> maxv))
    \<and> (\<not> fst (LimitMinMaxEigenvalues compute S minv maxv) \<longrightarrow>
         snd (LimitMinMaxEigenvalues compute S minv maxv) = S)"
proof -
  have 0: "fst (LimitMinMaxEigenvalues compute S minv maxv)
      = (maxCoeff (eigenvalues (compute S)) > maxv \<or> minCoeff (eigenvalues (compute S)) < minv)"
    by (rule LimitMinMaxEigenvalues_fst)
  also have "\<dots> = (\<exists>ev. eigenvalue S ev \<and> (ev > maxv \<or> ev < minv))"
    unfolding eigenvalue_decomposition_iff [OF assms(2)] maxCoeff_gt_iff minCoeff_less_iff
    by blast
  finally have 1: "fst (LimitMinMaxEigenvalues compute S minv maxv)
      = (\<exists>ev. eigenvalue S ev \<and> (ev > maxv \<or> ev < minv))" .
  have c: "clamp_value minv maxv x = max minv (min maxv x)" for x
    using assms(1) by (rule clamp_value_max_min)
  have 2: "snd (LimitMinMaxEigenvalues compute S minv maxv)
           = eigenvectors (compute S)
             * asDiagonal (\<lambda>i. max minv (min maxv (eigenvalues (compute S) i)))
             * inverse3 (eigenvectors (compute S))"
    if "fst (LimitMinMaxEigenvalues compute S minv maxv)"
    using that by (simp add: LimitMinMaxEigenvalues_snd_True c)
  have 3: "snd (LimitMinMaxEigenvalues compute S minv maxv) = S"
    if "\<not> fst (LimitMinMaxEigenvalues compute S minv maxv)"
    using that by (rule LimitMinMaxEigenvalues_snd_False)
  have 4: "minv \<le> ev \<and> ev \<le> maxv"
    if "fst (LimitMinMaxEigenvalues compute S minv maxv)"
      and "eigenvalue (snd (LimitMinMaxEigenvalues compute S minv maxv)) ev" for ev
    using assms that by (rule LimitMinMaxEigenvalues_clipped)
  show ?thesis
    using 0 1 2 3 4 by (intro conjI impI allI) blast+
qed

theorem LimitMinMaxEigenvalues_clamps_witness:
  "(- 2 :: real) \<le> 2
   \<and> eigen_decomposition (diag3 5 1 (- 5)) (eig_diagonal (diag3 5 1 (- 5)))
   \<and> eigenvalue (diag3 5 1 (- 5)) 5 \<and> (5::real) > 2
   \<and> fst (LimitMinMaxEigenvalues eig_diagonal (diag3 5 1 (- 5)) (- 2) 2)
   \<and> snd (LimitMinMaxEigenvalues eig_diagonal (diag3 5 1 (- 5)) (- 2) 2) = diag3 2 1 (- 2)
   \<and> eigenvalue (snd (LimitMinMaxEigenvalues eig_diagonal (diag3 5 1 (- 5)) (- 2) 2)) 2
   \<and> snd (LimitMinMaxEigenvalues eig_diagonal (diag3 5 1 (- 5)) (- 2) 2)
       = eigenvectors (eig_diagonal (diag3 5 1 (- 5)))
         * asDiagonal (\<lambda>i. max (- 2) (min 2 (eigenvalues (eig_diagonal (diag3 5 1 (- 5))) i)))
         * inverse3 (eigenvectors (eig_diagonal (diag3 5 1 (- 5))))"
proof -
  have h1: "(- 2 :: real) \<le> 2"
    by simp
  have h2: "eigen_decomposition (diag3 5 1 (- 5)) (eig_diagonal (diag3 5 1 (- 5)))"
    unfolding diag3_def by (rule eig_diagonal_decomposition)
  note th = LimitMinMaxEigenvalues_clamps [of "- 2" 2 "diag3 5 1 (- 5)" eig_diagonal, OF h1 h2]
  have e: "eigenvalue (diag3 5 1 (- 5)) 5"
    by (rule eigenvalue_diag3_first)
  have "\<exists>ev. eigenvalue (diag3 5 1 (- 5)) ev \<and> (ev > 2 \<or> ev < - 2)"
    using e by (intro exI [of _ 5]) simp
  with th [THEN conjunct2] have f: "fst (LimitMinMaxEigenvalues eig_diagonal (diag3 5 1 (- 5)) (- 2) 2)"
    by (simp only: simp_thms)
  with th [THEN conjunct2] have s: "snd (LimitMinMaxEigenvalues eig_diagonal (diag3 5 1 (- 5)) (- 2) 2)
       = eigenvectors (eig_diagonal (diag3 5 1 (- 5)))
         * asDiagonal (\<lambda>i. max (- 2) (min 2 (eigenvalues (eig_diagonal (diag3 5 1 (- 5))) i)))
         * inverse3 (eigenvectors (eig_diagonal (diag3 5 1 (- 5))))"
    by (simp only: simp_thms)
  have v: "snd (LimitMinMaxEigenvalues eig_diagonal (diag3 5 1 (- 5)) (- 2) 2) = diag3 2 1 (- 2)"
    by (simp add: LimitMinMaxEigenvalues_example)
  have e2: "eigenvalue (snd (LimitMinMaxEigenvalues eig_diagonal (diag3 5 1 (- 5)) (- 2) 2)) 2"
    unfolding v by (rule eigenvalue_diag3_first)
  have "(5::real) > 2"
    by simp
  with h1 h2 e f v e2 s show ?thesis
    by (intro conjI)
qed

text \<open>
  Claim C10.  For bounds \<open>min \<le> max\<close>, with the solver decomposing \<open>S\<close> and the matrix
  the first call leaves, a second call on that matrix returns false and leaves it as
  it is.
\<close>

theorem LimitMinMaxEigenvalues_idempotent:
  assumes "minv \<le> maxv" and "eigen_decomposition S (compute S)"
    and "eigen_decomposition (snd (LimitMinMaxEigenvalues compute S minv maxv))
           (compute (snd (LimitMinMaxEigenvalues compute S minv maxv)))"
  shows "LimitMinMaxEigenvalues compute (snd (LimitMinMaxEigenvalues compute S minv maxv)) minv maxv
    = (False, snd (LimitMinMaxEigenvalues compute S minv maxv))"
proof (cases "fst (LimitMinMaxEigenvalues compute S minv maxv)")
  case True
  define S' where "S' = snd (LimitMinMaxEigenvalues compute S minv maxv)"
  have "minv \<le> eigenvalues (compute S') i \<and> eigenvalues (compute S') i \<le> maxv" for i
  proof -
    have "eigenvalue S' (eigenvalues (compute S') i)"
      using eigenvalue_decomposition_iff [of S' "compute S'"] assms(3) by (auto simp: S'_def)
    then show ?thesis
      using LimitMinMaxEigenvalues_clipped [of minv maxv S compute, OF assms(1,2) True] by (simp add: S'_def)
  qed
  then have "\<not> (maxCoeff (eigenvalues (compute S')) > maxv \<or> minCoeff (eigenvalues (compute S')) < minv)"
    unfolding maxCoeff_gt_iff minCoeff_less_iff by (auto simp: not_less)
  then have "LimitMinMaxEigenvalues compute S' minv maxv = (False, S')"
    by (simp add: LimitMinMaxEigenvalues_unfold)
  then show ?thesis
    by (simp add: S'_def)
next
  case False
  then have "LimitMinMaxEigenvalues compute S minv maxv = (False, S)"
    using LimitMinMaxEigenvalues_snd_False [of compute S minv maxv]
    by (simp add: prod_eq_iff)
  then show ?thesis
    by simp
qed

theorem LimitMinMaxEigenvalues_idempotent_witness:
  "(- 2 :: real) \<le> 2
   \<and> eigen_decomposition (diag3 5 1 (- 5)) (eig_diagonal (diag3 5 1 (- 5)))
   \<and> eigen_decomposition (snd (LimitMinMaxEigenvalues eig_diagonal (diag3 5 1 (- 5)) (- 2) 2))
       (eig_diagonal (snd (LimitMinMaxEigenvalues eig_diagonal (diag3 5 1 (- 5)) (- 2) 2)))
   \<and> LimitMinMaxEigenvalues eig_diagonal (diag3 5 1 (- 5)) (- 2) 2 = (True, diag3 2 1 (- 2))
   \<and> LimitMinMaxEigenvalues eig_diagonal
        (snd (LimitMinMaxEigenvalues eig_diagonal (diag3 5 1 (- 5)) (- 2) 2)) (- 2) 2
      = (False, diag3 2 1 (- 2))"
  using LimitMinMaxEigenvalues_idempotent [of "- 2" 2 "diag3 5 1 (- 5)" eig_diagonal]
    eig_diagonal_decomposition [of "vec3 5 1 (- 5)"] eig_diagonal_decomposition [of "vec3 2 1 (- 2)"]
  by (simp add: LimitMinMaxEigenvalues_example flip: diag3_def)

end
